theory Spec2Isabelle
  imports Complex_Main
begin

section \<open>Span representations: a shallow embedding of span\_reprs.py\<close>

text \<open>
  The module defines five span-pooling classes over one base class and a factory
  selecting among them by name. Python objects are modelled as a class tag with an
  attribute dictionary, exceptions as the left summand of a result type, tensors as nested
  lists and tensor elements as real numbers (exact arithmetic in place of the float
  arithmetic of the tensor library).
\<close>

subsection \<open>Results and exceptions\<close>

text \<open>
  The exceptions a call can end with. \<open>Unmodelled\<close> is not a Python exception: it
  marks calls whose outcome this embedding does not express (index tensors whose length
  differs from the batch size, which the tensor library broadcasts or rejects, and float
  results that are infinite or not a number).
\<close>

datatype pyerr =
  NotImplementedError | AttributeError | IndexError | RuntimeError | TypeError | Unmodelled

definition bind_err :: "pyerr + 'a \<Rightarrow> ('a \<Rightarrow> pyerr + 'b) \<Rightarrow> pyerr + 'b" where
  "bind_err r f = (case r of Inl e \<Rightarrow> Inl e | Inr v \<Rightarrow> f v)"

subsection \<open>Tensors and the linear layer of the tensor library\<close>

type_synonym tensor1 = "real list"
type_synonym tensor2 = "real list list"
type_synonym tensor3 = "real list list list"

text \<open>
  \<open>nn.Linear(in_features, out_features)\<close> holds a weight matrix of shape
  \<open>[out_features, in_features]\<close> and a bias of length \<open>out_features\<close>. The library
  draws their initial values at random and a training loop updates them, so the values
  are a parameter of the model: a \<open>params\<close> gives the entry of every row and column.
  The constructor is taken as total; what the library does with negative sizes is not
  part of this module.
\<close>

record Linear =
  in_features :: int
  out_features :: int
  weight :: tensor2
  bias :: tensor1

record params =
  weight_at :: "nat \<Rightarrow> nat \<Rightarrow> real"
  bias_at :: "nat \<Rightarrow> real"

definition nn_Linear :: "params \<Rightarrow> int \<Rightarrow> int \<Rightarrow> Linear" where
  "nn_Linear ps i o' =
     \<lparr> in_features = i, out_features = o',
       weight = map (\<lambda>r. map (\<lambda>c. weight_at ps r c) [0..<nat i]) [0..<nat o'],
       bias = map (bias_at ps) [0..<nat o'] \<rparr>"

definition dot :: "tensor1 \<Rightarrow> tensor1 \<Rightarrow> real" where
  "dot w x = sum_list (map2 (*) w x)"

text \<open>The affine map on one token vector: \<open>x W\<^sup>T + b\<close>.\<close>

definition Linear_apply :: "Linear \<Rightarrow> tensor1 \<Rightarrow> tensor1" where
  "Linear_apply l x = map2 (\<lambda>row b. dot row x + b) (weight l) (bias l)"

text \<open>
  The layer applied to a \<open>[B, L, D]\<close> tensor acts on the last axis and raises a
  RuntimeError when that axis is not \<open>in_features\<close> long.
\<close>

definition Linear_forward :: "Linear \<Rightarrow> tensor3 \<Rightarrow> pyerr + tensor3" where
  "Linear_forward l x =
     (if \<forall>m \<in> set x. \<forall>v \<in> set m. int (length v) = in_features l
      then Inr (map (map (Linear_apply l)) x)
      else Inl RuntimeError)"

subsection \<open>Objects\<close>

datatype pyval = PInt int | PBool bool | PLinear Linear

datatype cls = MeanSpanRepr | EndPointRepr | DiffSumSpanRepr | MaxSpanRepr | AttnSpanRepr

record pyobj =
  cls_of :: cls
  attrs :: "string \<rightharpoonup> pyval"

text \<open>Reading \<open>self.name\<close>: an attribute that was never assigned raises AttributeError.\<close>

definition getattr :: "pyobj \<Rightarrow> string \<Rightarrow> pyerr + pyval" where
  "getattr self name = (case attrs self name of None \<Rightarrow> Inl AttributeError | Some v \<Rightarrow> Inr v)"

definition setattr :: "pyobj \<Rightarrow> string \<Rightarrow> pyval \<Rightarrow> pyobj" where
  "setattr self name v = self\<lparr> attrs := (attrs self)(name \<mapsto> v) \<rparr>"

text \<open>The truth value of an object in a condition.\<close>

fun truthy :: "pyval \<Rightarrow> bool" where
  "truthy (PBool b) = b"
| "truthy (PInt i) = (i \<noteq> 0)"
| "truthy (PLinear l) = True"

fun as_int :: "pyval \<Rightarrow> pyerr + int" where
  "as_int (PInt i) = Inr i"
| "as_int (PBool b) = Inr (if b then 1 else 0)"
| "as_int (PLinear l) = Inl TypeError"

fun call_layer :: "pyval \<Rightarrow> tensor3 \<Rightarrow> pyerr + tensor3" where
  "call_layer (PLinear l) x = Linear_forward l x"
| "call_layer (PInt i) x = Inl TypeError"
| "call_layer (PBool b) x = Inl TypeError"

text \<open>A freshly allocated instance of a class: no attribute assigned yet.\<close>

definition new :: "cls \<Rightarrow> pyobj" where
  "new c = \<lparr> cls_of = c, attrs = Map.empty \<rparr>"

text \<open>
  The two sources of layer parameters a constructor may draw from: one for the
  projection, one for the attention scorer.
\<close>

record init =
  proj_init :: params
  attention_init :: params

subsection \<open>The base class\<close>

definition SpanRepr_init :: "init \<Rightarrow> pyobj \<Rightarrow> int \<Rightarrow> bool \<Rightarrow> int \<Rightarrow> pyobj" where
  "SpanRepr_init \<theta> self input_dim use_proj proj_dim =
     (let self = setattr self ''input_dim'' (PInt input_dim);
          self = setattr self ''proj_dim'' (PInt proj_dim);
          self = setattr self ''use_proj'' (PBool use_proj)
      in if use_proj
         then setattr self ''proj'' (PLinear (nn_Linear (proj_init \<theta>) input_dim proj_dim))
         else self)"

definition get_input_dim :: "pyobj \<Rightarrow> pyerr + pyval" where
  "get_input_dim self = getattr self ''input_dim''"

text \<open>
  The step every \<open>forward\<close> starts with:
  \<open>if self.use_proj: encoded_input = self.proj(encoded_input)\<close>.
\<close>

definition apply_proj :: "pyobj \<Rightarrow> tensor3 \<Rightarrow> pyerr + tensor3" where
  "apply_proj self encoded_input =
     bind_err (getattr self ''use_proj'') (\<lambda>use_proj.
       if truthy use_proj
       then bind_err (getattr self ''proj'') (\<lambda>proj. call_layer proj encoded_input)
       else Inr encoded_input)"

subsection \<open>Output dimensions\<close>

definition MeanSpanRepr_get_output_dim :: "pyobj \<Rightarrow> pyerr + int" where
  "MeanSpanRepr_get_output_dim self =
     bind_err (getattr self ''use_proj'') (\<lambda>use_proj.
       if truthy use_proj
       then bind_err (getattr self ''proj_dim'') as_int
       else bind_err (getattr self ''input_dim'') as_int)"

definition EndPointRepr_get_output_dim :: "pyobj \<Rightarrow> pyerr + int" where
  "EndPointRepr_get_output_dim self =
     bind_err (getattr self ''use_proj'') (\<lambda>use_proj.
       if truthy use_proj
       then bind_err (bind_err (getattr self ''proj_dim'') as_int) (\<lambda>n. Inr (2 * n))
       else bind_err (bind_err (getattr self ''input_dim'') as_int) (\<lambda>n. Inr (2 * n)))"

definition DiffSumSpanRepr_get_output_dim :: "pyobj \<Rightarrow> pyerr + int" where
  "DiffSumSpanRepr_get_output_dim self =
     bind_err (getattr self ''use_proj'') (\<lambda>use_proj.
       if truthy use_proj
       then bind_err (bind_err (getattr self ''proj_dim'') as_int) (\<lambda>n. Inr (2 * n))
       else bind_err (bind_err (getattr self ''input_dim'') as_int) (\<lambda>n. Inr (2 * n)))"

definition MaxSpanRepr_get_output_dim :: "pyobj \<Rightarrow> pyerr + int" where
  "MaxSpanRepr_get_output_dim self =
     bind_err (getattr self ''use_proj'') (\<lambda>use_proj.
       if truthy use_proj
       then bind_err (getattr self ''proj_dim'') as_int
       else bind_err (getattr self ''input_dim'') as_int)"

definition AttnSpanRepr_get_output_dim :: "pyobj \<Rightarrow> pyerr + int" where
  "AttnSpanRepr_get_output_dim self =
     bind_err (getattr self ''use_endpoints'') (\<lambda>use_endpoints.
       if \<not> truthy use_endpoints
       then bind_err (getattr self ''use_proj'') (\<lambda>use_proj.
              if truthy use_proj
              then bind_err (getattr self ''proj_dim'') as_int
              else bind_err (getattr self ''input_dim'') as_int)
       else bind_err (getattr self ''use_proj'') (\<lambda>use_proj.
              if truthy use_proj
              then bind_err (bind_err (getattr self ''proj_dim'') as_int) (\<lambda>n. Inr (3 * n))
              else bind_err (bind_err (getattr self ''input_dim'') as_int) (\<lambda>n. Inr (3 * n))))"

text \<open>The method call \<open>obj.get_output_dim()\<close>, dispatched on the class of the object.\<close>

definition get_output_dim :: "pyobj \<Rightarrow> pyerr + int" where
  "get_output_dim self =
     (case cls_of self of
        MeanSpanRepr \<Rightarrow> MeanSpanRepr_get_output_dim self
      | EndPointRepr \<Rightarrow> EndPointRepr_get_output_dim self
      | DiffSumSpanRepr \<Rightarrow> DiffSumSpanRepr_get_output_dim self
      | MaxSpanRepr \<Rightarrow> MaxSpanRepr_get_output_dim self
      | AttnSpanRepr \<Rightarrow> AttnSpanRepr_get_output_dim self)"

subsection \<open>Constructors and the factory\<close>

text \<open>
  Four classes inherit the constructor of the base class. \<open>AttnSpanRepr\<close> has its own:
  it runs the base constructor and adds the scoring layer
  \<open>nn.Linear(proj_dim if use_proj else input_dim, 1)\<close>.
\<close>

definition MeanSpanRepr_new :: "init \<Rightarrow> int \<Rightarrow> bool \<Rightarrow> int \<Rightarrow> pyobj" where
  "MeanSpanRepr_new \<theta> input_dim use_proj proj_dim =
     SpanRepr_init \<theta> (new MeanSpanRepr) input_dim use_proj proj_dim"

definition MaxSpanRepr_new :: "init \<Rightarrow> int \<Rightarrow> bool \<Rightarrow> int \<Rightarrow> pyobj" where
  "MaxSpanRepr_new \<theta> input_dim use_proj proj_dim =
     SpanRepr_init \<theta> (new MaxSpanRepr) input_dim use_proj proj_dim"

definition DiffSumSpanRepr_new :: "init \<Rightarrow> int \<Rightarrow> bool \<Rightarrow> int \<Rightarrow> pyobj" where
  "DiffSumSpanRepr_new \<theta> input_dim use_proj proj_dim =
     SpanRepr_init \<theta> (new DiffSumSpanRepr) input_dim use_proj proj_dim"

definition EndPointRepr_new :: "init \<Rightarrow> int \<Rightarrow> bool \<Rightarrow> int \<Rightarrow> pyobj" where
  "EndPointRepr_new \<theta> input_dim use_proj proj_dim =
     SpanRepr_init \<theta> (new EndPointRepr) input_dim use_proj proj_dim"

definition AttnSpanRepr_new :: "init \<Rightarrow> int \<Rightarrow> bool \<Rightarrow> int \<Rightarrow> pyobj" where
  "AttnSpanRepr_new \<theta> input_dim use_proj proj_dim =
     (let self = SpanRepr_init \<theta> (new AttnSpanRepr) input_dim use_proj proj_dim;
          input_dim = (if use_proj then proj_dim else input_dim)
      in setattr self ''attention_params'' (PLinear (nn_Linear (attention_init \<theta>) input_dim 1)))"

definition get_span_module :: "init \<Rightarrow> int \<Rightarrow> string \<Rightarrow> bool \<Rightarrow> int \<Rightarrow> pyerr + pyobj" where
  "get_span_module \<theta> input_dim method use_proj proj_dim =
     (if method = ''mean'' then Inr (MeanSpanRepr_new \<theta> input_dim use_proj proj_dim)
      else if method = ''max'' then Inr (MaxSpanRepr_new \<theta> input_dim use_proj proj_dim)
      else if method = ''diff_sum'' then Inr (DiffSumSpanRepr_new \<theta> input_dim use_proj proj_dim)
      else if method = ''endpoint'' then Inr (EndPointRepr_new \<theta> input_dim use_proj proj_dim)
      else if method = ''attn'' then Inr (AttnSpanRepr_new \<theta> input_dim use_proj proj_dim)
      else Inl NotImplementedError)"

text \<open>
  A call site may leave out the keyword arguments; the signature
  \<open>get_span_module(input_dim, method="avg", use_proj=False, proj_dim=256)\<close> supplies
  the defaults.
\<close>

definition get_span_module_call ::
  "init \<Rightarrow> int \<Rightarrow> string option \<Rightarrow> bool option \<Rightarrow> int option \<Rightarrow> pyerr + pyobj" where
  "get_span_module_call \<theta> input_dim method use_proj proj_dim =
     get_span_module \<theta> input_dim
       (case method of None \<Rightarrow> ''avg'' | Some m \<Rightarrow> m)
       (case use_proj of None \<Rightarrow> False | Some u \<Rightarrow> u)
       (case proj_dim of None \<Rightarrow> 256 | Some p \<Rightarrow> p)"

subsection \<open>Tensor operations used by the forward computations\<close>

text \<open>\<open>x.shape[1]\<close> and the length of the last axis of a matrix, read off the nested lists.\<close>

definition seq_len :: "tensor3 \<Rightarrow> nat" where
  "seq_len x = (case x of [] \<Rightarrow> 0 | m # _ \<Rightarrow> length m)"

definition width :: "tensor2 \<Rightarrow> nat" where
  "width m = (case m of [] \<Rightarrow> 0 | v # _ \<Rightarrow> length v)"

text \<open>A tensor of the library is rectangular; nested lists need it said.\<close>

definition tensor3_shape :: "tensor3 \<Rightarrow> nat \<Rightarrow> nat \<Rightarrow> nat \<Rightarrow> bool" where
  "tensor3_shape x B L D =
     (length x = B \<and> (\<forall>m \<in> set x. length m = L \<and> (\<forall>v \<in> set m. length v = D)))"

definition tensor2_shape :: "tensor2 \<Rightarrow> nat \<Rightarrow> nat \<Rightarrow> bool" where
  "tensor2_shape x B D = (length x = B \<and> (\<forall>v \<in> set x. length v = D))"

text \<open>The first exception of a list of results, or all their values.\<close>

fun collect :: "(pyerr + 'a) list \<Rightarrow> pyerr + 'a list" where
  "collect [] = Inr []"
| "collect (r # rs) = bind_err r (\<lambda>v. bind_err (collect rs) (\<lambda>vs. Inr (v # vs)))"

text \<open>
  Modelled from the spec: \<open>get_span_mask\<close> is imported from the module \<open>utils\<close>, which
  is not among the sources. The spec gives its contract: for start and end indices of
  length \<open>B\<close> and a sequence length, a 0/1 mask with \<open>mask[b,p] = 1\<close> iff
  \<open>start_ids[b] <= p <= end_ids[b]\<close>, broadcast against \<open>[B, seq_len, D]\<close> tensors
  through an added trailing axis. The mask is kept as \<open>[B, seq_len]\<close> here and the
  broadcast is written out where the mask is used.
\<close>

definition get_span_mask :: "int list \<Rightarrow> int list \<Rightarrow> nat \<Rightarrow> tensor2" where
  "get_span_mask start_ids end_ids max_len =
     map2 (\<lambda>s e. map (\<lambda>p. if s \<le> int p \<and> int p \<le> e then 1 else 0) [0..<max_len])
       start_ids end_ids"

text \<open>
  The index tensors are expected to hold one entry per batch element; the embedding
  covers those calls only.
\<close>

definition batch_ok :: "tensor3 \<Rightarrow> int list \<Rightarrow> int list \<Rightarrow> bool" where
  "batch_ok x start_ids end_ids = (length start_ids = length x \<and> length end_ids = length x)"

text \<open>\<open>torch.sum(m, dim)\<close> over the sequence axis of one batch element \<open>[L, D]\<close>.\<close>

definition sum_dim :: "tensor2 \<Rightarrow> tensor1" where
  "sum_dim m = map (\<lambda>d. sum_list (map (\<lambda>v. v ! d) m)) [0..<width m]"

text \<open>
  \<open>torch.max(m, dim)[0]\<close> over the sequence axis of one batch element; the library
  rejects a maximum over an empty axis.
\<close>

definition max_dim :: "tensor2 \<Rightarrow> pyerr + tensor1" where
  "max_dim m =
     (case m of
        [] \<Rightarrow> Inl RuntimeError
      | v # vs \<Rightarrow> Inr (map (\<lambda>d. fold max (map (\<lambda>u. u ! d) vs) (v ! d)) [0..<length v]))"

text \<open>Softmax over the sequence axis of one batch element \<open>[L, K]\<close>.\<close>

definition softmax_dim :: "tensor2 \<Rightarrow> tensor2" where
  "softmax_dim m =
     (let z = sum_dim (map (map exp) m) in map (\<lambda>v. map2 (\<lambda>a s. exp a / s) v z) m)"

text \<open>An index into an axis of length \<open>n\<close>: negative indices count from the end.\<close>

definition index :: "nat \<Rightarrow> int \<Rightarrow> pyerr + nat" where
  "index n i =
     (if 0 \<le> i \<and> i < int n then Inr (nat i)
      else if - int n \<le> i \<and> i < 0 then Inr (nat (i + int n))
      else Inl IndexError)"

text \<open>\<open>x[torch.arange(batch_size), ids, :]\<close>: row \<open>ids[b]\<close> of batch element \<open>b\<close>.\<close>

definition gather :: "tensor3 \<Rightarrow> int list \<Rightarrow> pyerr + tensor2" where
  "gather x ids =
     (if length ids \<noteq> length x then Inl Unmodelled
      else collect (map2 (\<lambda>m i. bind_err (index (length m) i) (\<lambda>j. Inr (m ! j))) x ids))"

subsection \<open>The forward computations\<close>

definition MeanSpanRepr_forward ::
  "pyobj \<Rightarrow> tensor3 \<Rightarrow> int list \<Rightarrow> int list \<Rightarrow> pyerr + tensor2" where
  "MeanSpanRepr_forward self encoded_input start_ids end_ids =
     bind_err (apply_proj self encoded_input) (\<lambda>encoded_input.
       if \<not> batch_ok encoded_input start_ids end_ids then Inl Unmodelled
       else
         let span_lengths = map2 (\<lambda>s e. e - s + 1) start_ids end_ids;
             span_masks = get_span_mask start_ids end_ids (seq_len encoded_input);
             summed = map2 (\<lambda>x m. sum_dim (map2 (\<lambda>v c. map (\<lambda>a. a * c) v) x m))
                      encoded_input span_masks
         in if 0 \<in> set span_lengths then Inl Unmodelled
            else Inr (map2 (\<lambda>v n. map (\<lambda>a. a / real_of_int n) v) summed span_lengths))"

definition EndPointRepr_forward ::
  "pyobj \<Rightarrow> tensor3 \<Rightarrow> int list \<Rightarrow> int list \<Rightarrow> pyerr + tensor2" where
  "EndPointRepr_forward self encoded_input start_ids end_ids =
     bind_err (apply_proj self encoded_input) (\<lambda>encoded_input.
       bind_err (gather encoded_input start_ids) (\<lambda>hs.
         bind_err (gather encoded_input end_ids) (\<lambda>he.
           Inr (map2 (@) hs he))))"

definition DiffSumSpanRepr_forward ::
  "pyobj \<Rightarrow> tensor3 \<Rightarrow> int list \<Rightarrow> int list \<Rightarrow> pyerr + tensor2" where
  "DiffSumSpanRepr_forward self encoded_input start_ids end_ids =
     bind_err (apply_proj self encoded_input) (\<lambda>encoded_input.
       bind_err (gather encoded_input end_ids) (\<lambda>he.
         bind_err (gather encoded_input start_ids) (\<lambda>hs.
           Inr (map2 (@) (map2 (map2 (-)) he hs) (map2 (map2 (+)) he hs)))))"

definition MaxSpanRepr_forward ::
  "pyobj \<Rightarrow> tensor3 \<Rightarrow> int list \<Rightarrow> int list \<Rightarrow> pyerr + tensor2" where
  "MaxSpanRepr_forward self encoded_input start_ids end_ids =
     bind_err (apply_proj self encoded_input) (\<lambda>encoded_input.
       if \<not> batch_ok encoded_input start_ids end_ids then Inl Unmodelled
       else
         let span_masks = get_span_mask start_ids end_ids (seq_len encoded_input);
             tmp_repr = map2 (\<lambda>x m. map2 (\<lambda>v c. map (\<lambda>a. a * c - 10 ^ 10 * (1 - c)) v) x m)
                          encoded_input span_masks
         in collect (map max_dim tmp_repr))"

text \<open>
  The attention weights of \<open>AttnSpanRepr.forward\<close>, on the (optionally projected)
  input: the scores of the layer \<open>attention_params\<close>, of shape \<open>[B, L, 1]\<close>, plus the
  penalty of the positions outside the span, through a softmax over the sequence axis.
\<close>

definition attention_wts :: "pyobj \<Rightarrow> tensor3 \<Rightarrow> int list \<Rightarrow> int list \<Rightarrow> pyerr + tensor3" where
  "attention_wts self encoded_input start_ids end_ids =
     (if \<not> batch_ok encoded_input start_ids end_ids then Inl Unmodelled
      else
        let span_mask = get_span_mask start_ids end_ids (seq_len encoded_input);
            attn_mask = map (map (\<lambda>c. (1 - c) * (- (10 ^ 10)))) span_mask
        in bind_err (getattr self ''attention_params'') (\<lambda>attention_params.
             bind_err (call_layer attention_params encoded_input) (\<lambda>scores.
               let attn_logits = map2 (map2 (\<lambda>sc c. map (\<lambda>a. a + c) sc)) scores attn_mask
               in Inr (map softmax_dim attn_logits))))"

text \<open>
  The product of weights \<open>[L, 1]\<close> and token vectors \<open>[L, D]\<close> stretches the single
  weight of a position over the vector; the library rejects other widths unless they
  agree with \<open>D\<close>.
\<close>

definition weigh :: "tensor1 \<Rightarrow> tensor1 \<Rightarrow> pyerr + tensor1" where
  "weigh w v =
     (if length w = 1 then Inr (map (\<lambda>a. w ! 0 * a) v)
      else if length v = 1 then Inr (map (\<lambda>c. c * v ! 0) w)
      else if length w = length v then Inr (map2 (*) w v)
      else Inl RuntimeError)"

definition AttnSpanRepr_forward ::
  "pyobj \<Rightarrow> tensor3 \<Rightarrow> int list \<Rightarrow> int list \<Rightarrow> pyerr + tensor2" where
  "AttnSpanRepr_forward self encoded_input start_ids end_ids =
     bind_err (apply_proj self encoded_input) (\<lambda>encoded_input.
       bind_err (attention_wts self encoded_input start_ids end_ids) (\<lambda>attention_wts.
         bind_err (collect (map2 (\<lambda>w x. collect (map2 weigh w x)) attention_wts encoded_input))
           (\<lambda>weighted. Inr (map sum_dim weighted))))"

text \<open>The call \<open>obj(encoded_input, start_ids, end_ids)\<close>, dispatched on the class.\<close>

definition forward :: "pyobj \<Rightarrow> tensor3 \<Rightarrow> int list \<Rightarrow> int list \<Rightarrow> pyerr + tensor2" where
  "forward self encoded_input start_ids end_ids =
     (case cls_of self of
        MeanSpanRepr \<Rightarrow> MeanSpanRepr_forward self encoded_input start_ids end_ids
      | EndPointRepr \<Rightarrow> EndPointRepr_forward self encoded_input start_ids end_ids
      | DiffSumSpanRepr \<Rightarrow> DiffSumSpanRepr_forward self encoded_input start_ids end_ids
      | MaxSpanRepr \<Rightarrow> MaxSpanRepr_forward self encoded_input start_ids end_ids
      | AttnSpanRepr \<Rightarrow> AttnSpanRepr_forward self encoded_input start_ids end_ids)"

text \<open>A parameter source with every weight \<open>w\<close> and every bias \<open>c\<close>, for concrete runs.\<close>

definition const_init :: "real \<Rightarrow> real \<Rightarrow> init" where
  "const_init w c =
     \<lparr> proj_init = \<lparr> weight_at = \<lambda>r k. w, bias_at = \<lambda>r. c \<rparr>,
       attention_init = \<lparr> weight_at = \<lambda>r k. w, bias_at = \<lambda>r. c \<rparr> \<rparr>"

text \<open>
  What \<open>apply_proj\<close> leaves in \<open>encoded_input\<close> on an object of the factory, when
  the shapes fit: the layer \<open>proj\<close> on every token vector, or the input itself.
\<close>

abbreviation projected :: "init \<Rightarrow> int \<Rightarrow> bool \<Rightarrow> int \<Rightarrow> tensor3 \<Rightarrow> tensor3" where
  "projected \<theta> d up pd x \<equiv>
     (if up then map (map (Linear_apply (nn_Linear (proj_init \<theta>) d pd))) x else x)"



section \<open>The factory and the output dimensions\<close>

lemmas obj_simps = getattr_def setattr_def new_def SpanRepr_init_def bind_err_def Let_def



text \<open>
  The four classes whose \<open>get_output_dim\<close> reads only attributes the constructor
  assigns: mean and max report the input dimension (the projection dimension when the
  projection is active), endpoint and diff\_sum twice that.
\<close>

lemma get_output_dim_table:
  "get_output_dim (MeanSpanRepr_new \<theta> d up pd) = Inr (if up then pd else d)"
  "get_output_dim (MaxSpanRepr_new \<theta> d up pd) = Inr (if up then pd else d)"
  "get_output_dim (EndPointRepr_new \<theta> d up pd) = Inr (2 * (if up then pd else d))"
  "get_output_dim (DiffSumSpanRepr_new \<theta> d up pd) = Inr (2 * (if up then pd else d))"
  by (simp_all add: get_output_dim_def MeanSpanRepr_new_def MaxSpanRepr_new_def
      EndPointRepr_new_def DiffSumSpanRepr_new_def MeanSpanRepr_get_output_dim_def
      MaxSpanRepr_get_output_dim_def EndPointRepr_get_output_dim_def
      DiffSumSpanRepr_get_output_dim_def obj_simps)

text \<open>
  C2. The table promises the output dimension \<open>d\<close> for the tag \<open>attn\<close> without
  projection. On the object the factory returns for \<open>input_dim = 4\<close>, the call
  \<open>get_output_dim()\<close> raises AttributeError instead of returning 4.
\<close>

theorem attn_output_dim_at_4:
  "bind_err (get_span_module (const_init 0 0) 4 ''attn'' False 256) get_output_dim
     = Inl AttributeError"
  by (simp add: get_span_module_def get_output_dim_def AttnSpanRepr_new_def
      AttnSpanRepr_get_output_dim_def obj_simps)


text \<open>
  C10. With the argument \<open>method\<close> left out, the default \<open>"avg"\<close> is used, which is
  none of the five tags: the call raises NotImplementedError for every \<open>input_dim\<close> and
  whatever the other arguments are.
\<close>

theorem get_span_module_default_method:
  "get_span_module_call \<theta> d None up pd = Inl NotImplementedError"
  by (simp add: get_span_module_call_def get_span_module_def)

section \<open>Shapes, projection and gathering\<close>


lemma collect_map_Inr: "collect (map (\<lambda>x. Inr (f x)) xs) = Inr (map f xs)"
  by (induction xs) (simp_all add: bind_err_def)

lemma nn_Linear_sel:
  "in_features (nn_Linear ps i k) = i"
  "length (weight (nn_Linear ps i k)) = nat k"
  "length (bias (nn_Linear ps i k)) = nat k"
  by (simp_all add: nn_Linear_def)

lemma length_Linear_apply: "length (Linear_apply (nn_Linear ps i k) v) = nat k"
  by (simp add: Linear_apply_def nn_Linear_def)

lemma Linear_forward_shape:
  assumes "tensor3_shape x B L D" "int D = i"
  shows "Linear_forward (nn_Linear ps i k) x = Inr (map (map (Linear_apply (nn_Linear ps i k))) x)"
    and "tensor3_shape (map (map (Linear_apply (nn_Linear ps i k))) x) B L (nat k)"
  using assms by (auto simp add: Linear_forward_def tensor3_shape_def nn_Linear_sel length_Linear_apply)

lemma apply_proj_SpanRepr_init:
  "apply_proj (SpanRepr_init \<theta> (new c) d up pd) x =
     (if up then Linear_forward (nn_Linear (proj_init \<theta>) d pd) x else Inr x)"
  by (simp add: apply_proj_def obj_simps)

lemma apply_proj_Attn:
  "apply_proj (AttnSpanRepr_new \<theta> d up pd) x =
     (if up then Linear_forward (nn_Linear (proj_init \<theta>) d pd) x else Inr x)"
  by (simp add: apply_proj_def AttnSpanRepr_new_def obj_simps)

lemma apply_proj_ok:
  assumes "tensor3_shape x B L D" "up \<longrightarrow> int D = d"
  shows "apply_proj (SpanRepr_init \<theta> (new c) d up pd) x = Inr (projected \<theta> d up pd x)"
    and "apply_proj (AttnSpanRepr_new \<theta> d up pd) x = Inr (projected \<theta> d up pd x)"
    and "tensor3_shape (projected \<theta> d up pd x) B L (if up then nat pd else D)"
  using assms Linear_forward_shape[of x B L D d]
  by (auto simp add: apply_proj_SpanRepr_init apply_proj_Attn)

lemma gather_in_range:
  assumes "tensor3_shape x B L D" "length ids = B" "\<forall>b<B. 0 \<le> ids ! b \<and> ids ! b < int L"
  shows "gather x ids = Inr (map (\<lambda>b. x ! b ! nat (ids ! b)) [0..<B])"
proof -
  have "map2 (\<lambda>m i. bind_err (index (length m) i) (\<lambda>j. Inr (m ! j))) x ids
        = map (\<lambda>b. Inr (x ! b ! nat (ids ! b))) [0..<B]"
    using assms by (auto simp add: list_eq_iff_nth_eq tensor3_shape_def index_def bind_err_def)
  then show ?thesis using assms by (simp add: gather_def collect_map_Inr tensor3_shape_def)
qed


section \<open>The forward computations on in-range spans\<close>

lemma forward_endpoint_core:
  assumes x: "tensor3_shape x B L D'"
    and len: "length start_ids = B" "length end_ids = B"
    and rng: "\<forall>b<B. 0 \<le> start_ids ! b \<and> start_ids ! b \<le> end_ids ! b \<and> end_ids ! b < int L"
  shows "bind_err (gather x start_ids) (\<lambda>hs. bind_err (gather x end_ids) (\<lambda>he. Inr (map2 (@) hs he)))
     = Inr (map (\<lambda>b. x ! b ! nat (start_ids ! b) @ x ! b ! nat (end_ids ! b)) [0..<B])"
proof -
  have s: "\<forall>b<B. 0 \<le> start_ids ! b \<and> start_ids ! b < int L"
    and e: "\<forall>b<B. 0 \<le> end_ids ! b \<and> end_ids ! b < int L"
    using rng by force+
  show ?thesis
    by (simp add: gather_in_range[OF x len(1) s] gather_in_range[OF x len(2) e] bind_err_def
        list_eq_iff_nth_eq)
qed

lemma nth_in_shape:
  assumes "tensor3_shape x B L D" "b < B" "p < L"
  shows "length (x ! b) = L" "length (x ! b ! p) = D"
proof -
  have m: "x ! b \<in> set x" using assms by (simp add: tensor3_shape_def)
  then show l: "length (x ! b) = L" using assms by (simp add: tensor3_shape_def)
  then have "x ! b ! p \<in> set (x ! b)" using assms by simp
  then show "length (x ! b ! p) = D" using m assms(1) unfolding tensor3_shape_def by blast
qed

text \<open>
  C6. On an object the factory returns for \<open>endpoint\<close>, a \<open>[B, L, D]\<close> input and
  spans with \<open>0 \<le> start \<le> end < L\<close>, the projection step succeeds and \<open>forward\<close>
  returns, for every batch element, the (optionally projected) token vector at the start
  position followed by the one at the end position; the output has shape \<open>[B, 2D]\<close>,
  or \<open>[B, 2 proj_dim]\<close> when the projection is active.
\<close>

theorem EndPointRepr_forward_concat:
  assumes self: "get_span_module \<theta> d ''endpoint'' up pd = Inr self"
    and shape: "tensor3_shape encoded_input B L D"
    and proj: "up \<longrightarrow> int D = d \<and> 0 \<le> pd"
    and len: "length start_ids = B" "length end_ids = B"
    and rng: "\<forall>b<B. 0 \<le> start_ids ! b \<and> start_ids ! b \<le> end_ids ! b \<and> end_ids ! b < int L"
  shows "\<exists>x out.
      apply_proj self encoded_input = Inr x \<and>
      x = (if up then map (map (Linear_apply (nn_Linear (proj_init \<theta>) d pd))) encoded_input
           else encoded_input) \<and>
      forward self encoded_input start_ids end_ids = Inr out \<and>
      tensor2_shape out B (2 * (if up then nat pd else D)) \<and>
      (\<forall>b<B. out ! b = x ! b ! nat (start_ids ! b) @ x ! b ! nat (end_ids ! b))"
proof -
  let ?x = "projected \<theta> d up pd encoded_input"
  let ?D = "if up then nat pd else D"
  have self_eq: "self = SpanRepr_init \<theta> (new EndPointRepr) d up pd"
    using self by (simp add: get_span_module_def EndPointRepr_new_def)
  have cls: "cls_of self = EndPointRepr"
    by (simp add: self_eq obj_simps)
  have ap: "apply_proj self encoded_input = Inr ?x" and xs: "tensor3_shape ?x B L ?D"
    using apply_proj_ok[OF shape, of up d] proj by (simp_all add: self_eq)
  have fw: "forward self encoded_input start_ids end_ids
      = Inr (map (\<lambda>b. ?x ! b ! nat (start_ids ! b) @ ?x ! b ! nat (end_ids ! b)) [0..<B])"
    using forward_endpoint_core[OF xs len rng]
    by (simp add: forward_def cls EndPointRepr_forward_def ap bind_err_def)
  have sh: "tensor2_shape (map (\<lambda>b. ?x ! b ! nat (start_ids ! b) @ ?x ! b ! nat (end_ids ! b)) [0..<B])
      B (2 * ?D)"
    using rng nth_in_shape(2)[OF xs] by (auto simp add: tensor2_shape_def)
  show ?thesis
    using ap fw sh by (auto simp add:)
qed


lemma singleton_batch: "length out = Suc 0 \<Longrightarrow> out ! 0 = v \<Longrightarrow> out = [v]"
  by (cases out) simp_all

theorem EndPointRepr_forward_concat_witness:
  "forward (EndPointRepr_new (const_init 0 0) 4 False 256)
     [[[0, 1, 2, 3], [4, 5, 6, 7], [8, 9, 10, 11], [12, 13, 14, 15], [16, 17, 18, 19]]] [1] [3]
   = Inr [[4, 5, 6, 7, 12, 13, 14, 15]] \<and>
   forward (EndPointRepr_new (const_init 1 0) 2 True 1) [[[1, 2], [3, 4], [5, 6]]] [0] [2]
   = Inr [[3, 11]]"
proof -
  have a: "get_span_module (const_init 0 0) 4 ''endpoint'' False 256
      = Inr (EndPointRepr_new (const_init 0 0) 4 False 256)"
    and b: "get_span_module (const_init 1 0) 2 ''endpoint'' True 1
      = Inr (EndPointRepr_new (const_init 1 0) 2 True 1)"
    by (simp_all add: get_span_module_def)
  have "forward (EndPointRepr_new (const_init 0 0) 4 False 256)
     [[[0, 1, 2, 3], [4, 5, 6, 7], [8, 9, 10, 11], [12, 13, 14, 15], [16, 17, 18, 19]]] [1] [3]
   = Inr [[4, 5, 6, 7, 12, 13, 14, 15]]"
    using EndPointRepr_forward_concat [OF a, where B = 1 and L = 5 and D = 4 and start_ids = "[1]"
        and end_ids = "[3]" and encoded_input =
        "[[[0, 1, 2, 3], [4, 5, 6, 7], [8, 9, 10, 11], [12, 13, 14, 15], [16, 17, 18, 19]]]"]
    by (auto simp add: tensor3_shape_def tensor2_shape_def intro!: singleton_batch)
  moreover have "forward (EndPointRepr_new (const_init 1 0) 2 True 1) [[[1, 2], [3, 4], [5, 6]]] [0] [2]
   = Inr [[3, 11]]"
    using EndPointRepr_forward_concat [OF b, where B = 1 and L = 3 and D = 2 and start_ids = "[0]"
        and end_ids = "[2]" and encoded_input = "[[[1, 2], [3, 4], [5, 6]]]"]
    by (auto simp add: tensor3_shape_def tensor2_shape_def Linear_apply_def nn_Linear_def dot_def
        const_init_def upt_rec intro!: singleton_batch)
  ultimately show ?thesis by simp
qed





section \<open>The span mask\<close>

lemma span_mask_row:
  assumes "0 \<le> s" "s \<le> e" "e < int L"
  shows "map (\<lambda>p. if s \<le> int p \<and> int p \<le> e then 1 else 0) [0..<L]
     = replicate (nat s) (0::real) @ replicate (nat (e - s + 1)) 1 @ replicate (L - 1 - nat e) 0"
  using assms by (auto simp add: list_eq_iff_nth_eq nth_append)

text \<open>
  C8. For a batch element with \<open>0 \<le> start \<le> end < seq_len\<close>, the row of the mask
  is 1 at exactly the positions from start to end and 0 elsewhere: it is a block of
  zeros, a block of \<open>end - start + 1\<close> ones and a block of zeros, so it contains
  exactly \<open>end - start + 1\<close> ones, all contiguous.
\<close>

theorem get_span_mask_contiguous:
  assumes len: "length start_ids = B" "length end_ids = B"
    and b: "b < B"
    and rng: "0 \<le> start_ids ! b" "start_ids ! b \<le> end_ids ! b" "end_ids ! b < int L"
  shows "length (get_span_mask start_ids end_ids L) = B \<and>
    length (get_span_mask start_ids end_ids L ! b) = L \<and>
    (\<forall>p<L. get_span_mask start_ids end_ids L ! b ! p
        = (if start_ids ! b \<le> int p \<and> int p \<le> end_ids ! b then 1 else 0)) \<and>
    get_span_mask start_ids end_ids L ! b
      = replicate (nat (start_ids ! b)) 0 @
        replicate (nat (end_ids ! b - start_ids ! b + 1)) 1 @
        replicate (L - 1 - nat (end_ids ! b)) 0 \<and>
    length (filter (\<lambda>c. c = 1) (get_span_mask start_ids end_ids L ! b))
      = nat (end_ids ! b - start_ids ! b + 1)"
proof -
  have row: "get_span_mask start_ids end_ids L ! b
      = map (\<lambda>p. if start_ids ! b \<le> int p \<and> int p \<le> end_ids ! b then 1 else 0) [0..<L]"
    using len b by (simp add: get_span_mask_def)
  have rep: "get_span_mask start_ids end_ids L ! b
      = replicate (nat (start_ids ! b)) 0 @
        replicate (nat (end_ids ! b - start_ids ! b + 1)) 1 @
        replicate (L - 1 - nat (end_ids ! b)) 0"
    unfolding row by (rule span_mask_row[OF rng])
  have cnt: "length (filter (\<lambda>c. c = 1) (get_span_mask start_ids end_ids L ! b))
      = nat (end_ids ! b - start_ids ! b + 1)"
    unfolding rep by simp
  have l1: "length (get_span_mask start_ids end_ids L) = B"
    using len by (simp add: get_span_mask_def)
  have l2: "length (get_span_mask start_ids end_ids L ! b) = L"
    by (simp add: row)
  have pt: "\<forall>p<L. get_span_mask start_ids end_ids L ! b ! p
        = (if start_ids ! b \<le> int p \<and> int p \<le> end_ids ! b then 1 else 0)"
    by (simp add: row)
  show ?thesis
    using l1 l2 pt rep cnt by blast
qed

theorem get_span_mask_contiguous_witness:
  "get_span_mask [1, 0] [3, 0] 5 ! 0 = [0, 1, 1, 1, 0] \<and>
   length (filter (\<lambda>c. c = 1) (get_span_mask [1, 0] [3, 0] 5 ! 0)) = 3"
  using get_span_mask_contiguous [of "[1, 0]" 2 "[3, 0]" 0 5]
  by (simp add: numeral_eq_Suc)


section \<open>Pooling over the span mask\<close>


lemma seq_len_shape: "tensor3_shape x B L D \<Longrightarrow> 0 < B \<Longrightarrow> seq_len x = L"
  by (cases x) (auto simp add: tensor3_shape_def seq_len_def)








lemma max_dim_Max:
  assumes m: "length m = L" "\<forall>v\<in>set m. length v = D" and L: "0 < L"
  shows "max_dim m = Inr (map (\<lambda>k. Max ((\<lambda>p. m ! p ! k) ` {0..<L})) [0..<D])"
proof (cases m)
  case Nil
  then show ?thesis using m L by simp
next
  case (Cons v vs)
  have "fold max (map (\<lambda>u. u ! k) vs) (v ! k) = Max ((\<lambda>p. m ! p ! k) ` {0..<L})" for k
  proof -
    have "fold max (map (\<lambda>u. u ! k) vs) (v ! k) = Max (set (map (\<lambda>u. u ! k) m))"
      unfolding Cons using Max.set_eq_fold[of "v ! k" "map (\<lambda>u. u ! k) vs"] by simp
    also have "map (\<lambda>u. u ! k) m = map (\<lambda>p. m ! p ! k) [0..<L]"
      using m(1) by (simp add: list_eq_iff_nth_eq)
    also have "set (map (\<lambda>p. m ! p ! k) [0..<L]) = (\<lambda>p. m ! p ! k) ` {0..<L}"
      by simp
    finally show ?thesis .
  qed
  moreover have "length v = D" using m Cons by simp
  ultimately show ?thesis by (simp add: max_dim_def Cons)
qed

lemma penalised_row:
  assumes m: "length m = L" "\<forall>v\<in>set m. length v = D"
    and rng: "0 \<le> s" "s \<le> e" "e < int L"
  shows "max_dim (map2 (\<lambda>v c. map (\<lambda>a. a * c - 10 ^ 10 * (1 - c)) v) m
            (map (\<lambda>p. if s \<le> int p \<and> int p \<le> e then 1 else 0) [0..<L]))
     = Inr (map (\<lambda>k. Max ((\<lambda>p. if s \<le> int p \<and> int p \<le> e then m ! p ! k else - (10 ^ 10))
                              ` {0..<L})) [0..<D])"
proof -
  let ?t = "map2 (\<lambda>v c. map (\<lambda>a. a * c - 10 ^ 10 * (1 - c)) v) m
            (map (\<lambda>p. if s \<le> int p \<and> int p \<le> e then (1::real) else 0) [0..<L])"
  have t: "?t = map (\<lambda>p. map (\<lambda>a. if s \<le> int p \<and> int p \<le> e then a else - (10 ^ 10)) (m ! p)) [0..<L]"
    using m by (auto simp add: list_eq_iff_nth_eq)
  let ?T = "map (\<lambda>p. map (\<lambda>a. if s \<le> int p \<and> int p \<le> e then a else - (10 ^ 10)) (m ! p)) [0..<L]"
  have L: "0 < L" using rng by simp
  have lt: "length ?T = L" "\<forall>v\<in>set ?T. length v = D"
    using m by auto
  have el: "?T ! p ! k = (if s \<le> int p \<and> int p \<le> e then m ! p ! k else - (10 ^ 10))"
    if "p < L" "k < D" for p k
    using that m by simp
  have "max_dim ?T
     = Inr (map (\<lambda>k. Max ((\<lambda>p. if s \<le> int p \<and> int p \<le> e then m ! p ! k else - (10 ^ 10))
                              ` {0..<L})) [0..<D])"
    unfolding max_dim_Max[OF lt L]
    by (intro arg_cong[where f = Inr] map_cong refl arg_cong[where f = Max] image_cong)
      (simp_all only: el set_upt atLeastLessThan_iff)
  then show ?thesis by (simp only: t)
qed

lemma Max_penalised:
  fixes g :: "nat \<Rightarrow> real"
  assumes rng: "0 \<le> s" "s \<le> e" "e < int L"
    and ok: "(s = 0 \<and> e = int L - 1) \<or> (\<exists>p\<in>{nat s..nat e}. - (10 ^ 10) \<le> g p)"
  shows "Max ((\<lambda>p. if s \<le> int p \<and> int p \<le> e then g p else - (10 ^ 10)) ` {0..<L})
     = Max (g ` {nat s..nat e})"
proof (rule Max_eqI)
  show "finite ((\<lambda>p. if s \<le> int p \<and> int p \<le> e then g p else - (10 ^ 10)) ` {0..<L})"
    by simp
  have ne: "g ` {nat s..nat e} \<noteq> {}" using rng by simp
  have fin: "finite (g ` {nat s..nat e})" by simp
  show "y \<le> Max (g ` {nat s..nat e})"
    if "y \<in> (\<lambda>p. if s \<le> int p \<and> int p \<le> e then g p else - (10 ^ 10)) ` {0..<L}" for y
  proof -
    from that obtain p where p: "p < L"
      "y = (if s \<le> int p \<and> int p \<le> e then g p else - (10 ^ 10))" by auto
    show ?thesis
    proof (cases "s \<le> int p \<and> int p \<le> e")
      case True
      then have "p \<in> {nat s..nat e}" using rng by auto
      then show ?thesis using p True by simp
    next
      case False
      then have "\<not> (s = 0 \<and> e = int L - 1)" using p by auto
      then obtain q where q: "q \<in> {nat s..nat e}" "- (10 ^ 10) \<le> g q" using ok by blast
      then have "g q \<le> Max (g ` {nat s..nat e})" by simp
      then have "- (10 ^ 10) \<le> Max (g ` {nat s..nat e})" using q(2) by (rule order_trans[rotated])
      then show ?thesis using p False by simp
    qed
  qed
  have "Max (g ` {nat s..nat e}) \<in> g ` {nat s..nat e}"
    using Max_in[OF fin ne] .
  then obtain q where q: "q \<in> {nat s..nat e}" "Max (g ` {nat s..nat e}) = g q" by auto
  then have "q < L" "s \<le> int q \<and> int q \<le> e" using rng by auto
  then show "Max (g ` {nat s..nat e})
      \<in> (\<lambda>p. if s \<le> int p \<and> int p \<le> e then g p else - (10 ^ 10)) ` {0..<L}"
    using q by (auto simp add: image_iff intro!: bexI[of _ q])
qed


lemma max_core:
  assumes x: "tensor3_shape x B L D'"
    and len: "length start_ids = B" "length end_ids = B"
    and rng: "\<forall>b<B. 0 \<le> start_ids ! b \<and> start_ids ! b \<le> end_ids ! b \<and> end_ids ! b < int L"
  shows "(if \<not> batch_ok x start_ids end_ids then Inl Unmodelled
       else
         let span_masks = get_span_mask start_ids end_ids (seq_len x);
             tmp_repr = map2 (\<lambda>x m. map2 (\<lambda>v c. map (\<lambda>a. a * c - 10 ^ 10 * (1 - c)) v) x m)
                          x span_masks
         in collect (map max_dim tmp_repr))
     = Inr (map (\<lambda>b. map (\<lambda>k. Max ((\<lambda>p. if start_ids ! b \<le> int p \<and> int p \<le> end_ids ! b
                                            then x ! b ! p ! k else - (10 ^ 10)) ` {0..<L}))
                         [0..<D']) [0..<B])"
proof -
  define pen :: "tensor2 \<Rightarrow> tensor1 \<Rightarrow> tensor2"
    where "pen = (\<lambda>x m. map2 (\<lambda>v c. map (\<lambda>a. a * c - 10 ^ 10 * (1 - c)) v) x m)"
  define res :: "nat \<Rightarrow> tensor1"
    where "res = (\<lambda>b. map (\<lambda>k. Max ((\<lambda>p. if start_ids ! b \<le> int p \<and> int p \<le> end_ids ! b
                                  then x ! b ! p ! k else - (10 ^ 10)) ` {0..<L})) [0..<D'])"
  define masks where "masks = get_span_mask start_ids end_ids (seq_len x)"
  have lx: "length x = B" using x by (simp add: tensor3_shape_def)
  have ok: "batch_ok x start_ids end_ids" using len lx by (simp add: batch_ok_def)
  have row: "max_dim (pen (x ! b) (masks ! b)) = Inr (res b)" if b: "b < B" for b
  proof -
    have sl: "seq_len x = L" using seq_len_shape[OF x] b by simp
    have xb: "x ! b \<in> set x" using b lx by simp
    have m: "length (x ! b) = L" "\<forall>v\<in>set (x ! b). length v = D'"
      using x xb unfolding tensor3_shape_def by blast+
    have r: "0 \<le> start_ids ! b" "start_ids ! b \<le> end_ids ! b" "end_ids ! b < int L"
      using rng b by auto
    have mk: "get_span_mask start_ids end_ids L ! b
        = map (\<lambda>p. if start_ids ! b \<le> int p \<and> int p \<le> end_ids ! b then 1 else 0) [0..<L]"
      using len b by (simp add: get_span_mask_def)
    show ?thesis unfolding pen_def res_def masks_def sl mk by (rule penalised_row[OF m r])
  qed
  have lm: "length masks = B"
    using len by (simp add: masks_def get_span_mask_def)
  have "map max_dim (map2 pen x masks) = map (\<lambda>b. Inr (res b)) [0..<B]"
    using lx lm by (simp add: list_eq_iff_nth_eq row)
  then have "collect (map max_dim (map2 pen x masks)) = Inr (map res [0..<B])"
    by (simp only: collect_map_Inr)
  then show ?thesis
    using ok unfolding pen_def res_def masks_def Let_def by (simp only: if_False not_True_eq_False)
qed

text \<open>
  C5, as amended. On an object the factory returns for \<open>max\<close>, a \<open>[B, L, D]\<close>
  input and spans with \<open>0 \<le> start \<le> end < L\<close>, \<open>forward\<close> returns, for every
  batch element and channel, the maximum over all positions of the (optionally projected)
  value inside the span and of the constant \<open>-1e10\<close> outside it. This is the maximum
  over the positions of the span whenever the span covers the whole sequence or some value
  of the channel inside the span is at least \<open>-1e10\<close>.
\<close>

theorem MaxSpanRepr_forward_max:
  assumes self: "get_span_module \<theta> d ''max'' up pd = Inr self"
    and shape: "tensor3_shape encoded_input B L D"
    and proj: "up \<longrightarrow> int D = d \<and> 0 \<le> pd"
    and len: "length start_ids = B" "length end_ids = B"
    and rng: "\<forall>b<B. 0 \<le> start_ids ! b \<and> start_ids ! b \<le> end_ids ! b \<and> end_ids ! b < int L"
  shows "\<exists>x out.
      apply_proj self encoded_input = Inr x \<and>
      x = (if up then map (map (Linear_apply (nn_Linear (proj_init \<theta>) d pd))) encoded_input
           else encoded_input) \<and>
      forward self encoded_input start_ids end_ids = Inr out \<and>
      tensor2_shape out B (if up then nat pd else D) \<and>
      (\<forall>b<B. \<forall>k<(if up then nat pd else D).
         out ! b ! k = Max ((\<lambda>p. if start_ids ! b \<le> int p \<and> int p \<le> end_ids ! b
                                  then x ! b ! p ! k else - (10 ^ 10)) ` {0..<L}) \<and>
         ((start_ids ! b = 0 \<and> end_ids ! b = int L - 1) \<or>
          (\<exists>p\<in>{nat (start_ids ! b)..nat (end_ids ! b)}. - (10 ^ 10) \<le> x ! b ! p ! k)
          \<longrightarrow> out ! b ! k
              = Max ((\<lambda>p. x ! b ! p ! k) ` {nat (start_ids ! b)..nat (end_ids ! b)})))"
proof -
  let ?x = "projected \<theta> d up pd encoded_input"
  let ?D = "if up then nat pd else D"
  let ?out = "map (\<lambda>b. map (\<lambda>k. Max ((\<lambda>p. if start_ids ! b \<le> int p \<and> int p \<le> end_ids ! b
                                            then ?x ! b ! p ! k else - (10 ^ 10)) ` {0..<L}))
                         [0..<?D]) [0..<B]"
  have self_eq: "self = SpanRepr_init \<theta> (new MaxSpanRepr) d up pd"
    using self by (simp add: get_span_module_def MaxSpanRepr_new_def)
  have cls: "cls_of self = MaxSpanRepr"
    by (simp add: self_eq obj_simps)
  have ap: "apply_proj self encoded_input = Inr ?x" and xs: "tensor3_shape ?x B L ?D"
    using apply_proj_ok[OF shape, of up d] proj by (simp_all add: self_eq)
  have fw: "forward self encoded_input start_ids end_ids = Inr ?out"
    using max_core[OF xs len rng]
    by (simp add: forward_def cls MaxSpanRepr_forward_def ap bind_err_def)
  have sh: "tensor2_shape ?out B ?D"
    by (auto simp add: tensor2_shape_def)
  have el: "?out ! b ! k = Max ((\<lambda>p. if start_ids ! b \<le> int p \<and> int p \<le> end_ids ! b
                                  then ?x ! b ! p ! k else - (10 ^ 10)) ` {0..<L})"
    if "b < B" "k < ?D" for b k
    using that by simp
  have mx: "?out ! b ! k = Max ((\<lambda>p. ?x ! b ! p ! k) ` {nat (start_ids ! b)..nat (end_ids ! b)})"
    if b: "b < B" and k: "k < ?D"
      and ok: "(start_ids ! b = 0 \<and> end_ids ! b = int L - 1) \<or>
          (\<exists>p\<in>{nat (start_ids ! b)..nat (end_ids ! b)}. - (10 ^ 10) \<le> ?x ! b ! p ! k)" for b k
  proof -
    have r: "0 \<le> start_ids ! b" "start_ids ! b \<le> end_ids ! b" "end_ids ! b < int L"
      using rng b by auto
    show ?thesis
      unfolding el[OF b k] by (rule Max_penalised[OF r ok])
  qed
  have all: "\<forall>b<B. \<forall>k<?D.
         ?out ! b ! k = Max ((\<lambda>p. if start_ids ! b \<le> int p \<and> int p \<le> end_ids ! b
                                  then ?x ! b ! p ! k else - (10 ^ 10)) ` {0..<L}) \<and>
         ((start_ids ! b = 0 \<and> end_ids ! b = int L - 1) \<or>
          (\<exists>p\<in>{nat (start_ids ! b)..nat (end_ids ! b)}. - (10 ^ 10) \<le> ?x ! b ! p ! k)
          \<longrightarrow> ?out ! b ! k
              = Max ((\<lambda>p. ?x ! b ! p ! k) ` {nat (start_ids ! b)..nat (end_ids ! b)}))"
    using el mx by blast
  show ?thesis
    using ap fw sh all by blast
qed


theorem MaxSpanRepr_forward_max_witness:
  "forward (MaxSpanRepr_new (const_init 0 0) 2 False 256)
     [[[1, 8], [5, 2], [3, 9]]] [0] [1] = Inr [[5, 8]]"
proof -
  let ?enc = "[[[1, 8], [5, 2], [3, 9]]] :: tensor3"
  have a: "get_span_module (const_init 0 0) 2 ''max'' False 256
      = Inr (MaxSpanRepr_new (const_init 0 0) 2 False 256)"
    by (simp add: get_span_module_def)
  have sh: "tensor3_shape ?enc 1 3 2" by (simp add: tensor3_shape_def)
  have pr: "False \<longrightarrow> int 2 = 2 \<and> (0::int) \<le> 256" by simp
  have len: "length [0::int] = 1" "length [1::int] = 1" by simp_all
  have rng: "\<forall>b<1. 0 \<le> [0::int] ! b \<and> [0::int] ! b \<le> [1] ! b \<and> [1::int] ! b < int 3"
    by simp
  have s: "{0..Suc 0} = {0, 1}" by auto
  from MaxSpanRepr_forward_max [OF a sh pr len rng, unfolded if_False]
  show ?thesis
  proof (elim exE conjE)
    fix x out
    assume x: "x = ?enc"
      and fw: "forward (MaxSpanRepr_new (const_init 0 0) 2 False 256) ?enc [0] [1] = Inr out"
      and l: "tensor2_shape out 1 2"
      and el: "\<forall>b<1. \<forall>k<2.
         out ! b ! k = Max ((\<lambda>p. if [0] ! b \<le> int p \<and> int p \<le> [1] ! b
                                  then x ! b ! p ! k else - (10 ^ 10)) ` {0..<3}) \<and>
         (([0] ! b = 0 \<and> [1] ! b = int 3 - 1) \<or>
          (\<exists>p\<in>{nat ([0] ! b)..nat ([1] ! b)}. - (10 ^ 10) \<le> x ! b ! p ! k)
          \<longrightarrow> out ! b ! k = Max ((\<lambda>p. x ! b ! p ! k) ` {nat ([0] ! b)..nat ([1] ! b)}))"
    have e0: "out ! 0 ! 0 = 5"
      using el[rule_format, of 0 0] by (simp add: x s)
    have e1: "out ! 0 ! 1 = 8"
      using el[rule_format, of 0 1] by (simp add: x s)
    have ll: "length out = Suc 0" "length (out ! 0) = 2"
      using l by (auto simp add: tensor2_shape_def)
    have "out ! 0 = [5, 8]"
      using ll(2) e0 e1 by (simp add: list_eq_iff_nth_eq less_Suc_eq numeral_eq_Suc)
    then have "out = [[5, 8]]"
      using ll(1) by (intro singleton_batch)
    then show ?thesis using fw by simp
  qed
qed


text \<open>
  C5 as stated fails: the penalty is finite, so a position outside the span wins the
  maximum when every value of the channel inside the span is below \<open>-1e10\<close>. With one
  channel, the values \<open>-2e10\<close> at position 0 and \<open>0\<close> at position 1 and the span
  \<open>[0, 0]\<close>, the output is \<open>-1e10\<close> and the maximum over the span is \<open>-2e10\<close>.
\<close>

theorem MaxSpanRepr_forward_max_counterexample:
  "forward (MaxSpanRepr_new (const_init 0 0) 1 False 256) [[[- 20000000000], [0]]] [0] [0]
     = Inr [[- 10000000000]] \<and>
   [[- 10000000000]] ! 0 ! 0
     \<noteq> Max ((\<lambda>p. [[[- 20000000000], [0 :: real]]] ! 0 ! p ! 0) ` {nat 0..nat 0})"
  by (simp add: forward_def MaxSpanRepr_new_def MaxSpanRepr_forward_def apply_proj_def
      obj_simps batch_ok_def get_span_mask_def seq_len_def max_dim_def upt_rec)

section \<open>Attention pooling\<close>














end
